theory Spec2Isabelle
  imports Complex_Main
begin

section \<open>Diffusion tensor fitting (dipy/core/dti.py)\<close>

text \<open>
  The embedding follows \<^verbatim>\<open>src/dipy/core/dti.py\<close>. Floating-point numbers are
  modelled as real numbers: rounding (also the rounding of a store into a
  \<^verbatim>\<open>float32\<close> array) and overflow are not modelled. A one-dimensional array is a list,
  a two-dimensional array is the list of its rows.

  The numpy routines \<^verbatim>\<open>np.linalg.pinv\<close> and \<^verbatim>\<open>np.linalg.eig\<close> are library code,
  not code of this repository: the functions that call them take them as the
  parameters \<open>pinv\<close> and \<open>eig\<close>.
\<close>

subsection \<open>Errors and arrays\<close>

text \<open>
  \<open>ValueError\<close> and \<open>IndexError\<close> are the Python exceptions the code raises, either
  by its own \<^verbatim>\<open>raise\<close> or inside a numpy operation. \<open>NonFinite\<close> is not an
  exception: it marks the point where an array first holds \<^verbatim>\<open>-inf\<close> or \<^verbatim>\<open>nan\<close>
  (numpy goes on with a RuntimeWarning), which the real-valued model does not
  follow any further.
\<close>

datatype error = ValueError string | IndexError string | NonFinite string

type_synonym vec = "real list"
type_synonym mat = "real list list"

datatype diagnostic = GradientBValueMismatch

definition bindE :: "error + 'a \<Rightarrow> ('a \<Rightarrow> error + 'b) \<Rightarrow> error + 'b" where
  "bindE m f = (case m of Inl e \<Rightarrow> Inl e | Inr x \<Rightarrow> f x)"

text \<open>\<^verbatim>\<open>M.shape[1]\<close> of a two-dimensional array given by its rows.\<close>

definition ncols :: "mat \<Rightarrow> nat" where
  "ncols M = (case M of [] \<Rightarrow> 0 | r # _ \<Rightarrow> length r)"

text \<open>\<^verbatim>\<open>M[:,j]\<close>\<close>

definition col :: "mat \<Rightarrow> nat \<Rightarrow> vec" where
  "col M j = map (\<lambda>r. r ! j) M"

text \<open>\<^verbatim>\<open>np.zeros((r,c))\<close>\<close>

definition zeros :: "nat \<Rightarrow> nat \<Rightarrow> mat" where
  "zeros r c = replicate r (replicate c 0)"

subsection \<open>design_matrix\<close>

text \<open>
  \<^verbatim>\<open>np.where(bval > 0)\<close> on a one-dimensional \<^verbatim>\<open>bval\<close>: the indices of the
  positive entries, in increasing order. numpy returns them as a tuple holding
  one index array (one array per dimension of \<^verbatim>\<open>bval\<close>).
\<close>

definition where_positive :: "vec \<Rightarrow> nat list" where
  "where_positive bval = filter (\<lambda>j. 0 < bval ! j) [0..<length bval]"

text \<open>\<^verbatim>\<open>row[idx] = vals\<close> for an index list and as many values.\<close>

fun put :: "vec \<Rightarrow> nat list \<Rightarrow> vec \<Rightarrow> vec" where
  "put row (j # js) (v # vs) = put (row[j := v]) js vs"
| "put row _ _ = row"

text \<open>
  \<^verbatim>\<open>G[:,np.where(bval > 0)] = gtab\<close> (line 303). The index is the pair of a slice
  and the tuple \<^verbatim>\<open>(idx,)\<close> that \<^verbatim>\<open>np.where\<close> returned. A tuple inside an index is
  converted to an array, here of shape \<open>(1,k)\<close> for \<open>k\<close> positive b-values, so the
  indexing result has shape \<open>(3,1,k)\<close>. A value of shape \<open>(r,m)\<close> is assigned by
  broadcasting it to that shape: it is read as \<open>(1,r,m)\<close>, which fits only when
  \<open>r = 1\<close> and \<open>m = k\<close> or \<open>m = 1\<close>. Then every row of \<open>G\<close> receives the single row of
  the value; otherwise numpy raises ValueError (shape mismatch).
\<close>

definition setitem_where :: "mat \<Rightarrow> nat list \<Rightarrow> mat \<Rightarrow> error + mat" where
  "setitem_where G idx val =
     (if length val = 1 \<and> (ncols val = length idx \<or> ncols val = 1)
      then Inr (map (\<lambda>row. put row idx
                  (if ncols val = length idx then val ! 0
                   else replicate (length idx) (val ! 0 ! 0))) G)
      else Inl (ValueError ''shape mismatch: value array could not be broadcast to indexing result''))"

text \<open>
  Lines 305 to 314: the seven columns of \<open>B\<close>, row by row, and the final
  \<^verbatim>\<open>return -B\<close>, which negates every entry, the column of ones included.
  \<^verbatim>\<open>G[2,:]\<close> raises IndexError when \<open>G\<close> has fewer than three rows.
\<close>

definition B_row :: "mat \<Rightarrow> vec \<Rightarrow> nat \<Rightarrow> vec" where
  "B_row G bval j =
     [G ! 0 ! j * G ! 0 ! j * 1 * bval ! j,
      G ! 1 ! j * G ! 1 ! j * 1 * bval ! j,
      G ! 2 ! j * G ! 2 ! j * 1 * bval ! j,
      G ! 0 ! j * G ! 1 ! j * 2 * bval ! j,
      G ! 0 ! j * G ! 2 ! j * 2 * bval ! j,
      G ! 1 ! j * G ! 2 ! j * 2 * bval ! j,
      1]"

definition build_B :: "mat \<Rightarrow> vec \<Rightarrow> error + mat" where
  "build_B G bval =
     (if length G < 3 then Inl (IndexError ''index out of bounds'')
      else Inr (map (\<lambda>j. map uminus (B_row G bval j)) [0..<length bval]))"

text \<open>
  \<^verbatim>\<open>design_matrix(gtab, bval)\<close>: the diagnostics printed and the result. \<open>gtab\<close> is
  the list of the rows of the gradient table (three rows of \<open>g\<close> entries for a
  \<open>(3,g)\<close> table), \<open>bval\<close> a one-dimensional array.
\<close>

definition design_matrix :: "mat \<Rightarrow> vec \<Rightarrow> diagnostic list \<times> (error + mat)" where
  "design_matrix gtab bval =
     (if ncols gtab \<noteq> length bval
      then ([GradientBValueMismatch],
            bindE (setitem_where (zeros 3 (length bval)) (where_positive bval) gtab)
                (\<lambda>G. build_B G bval))
      else ([], build_B gtab bval))"

subsection \<open>decompose_tensor\<close>

text \<open>
  \<^verbatim>\<open>a.argsort()\<close>: the indices that sort \<open>a\<close> in ascending order. Equal keys keep
  their order (numpy sorts so short an array by insertion).
\<close>

definition argsort :: "vec \<Rightarrow> nat list" where
  "argsort a = sort_key (\<lambda>i. a ! i) [0..<length a]"

text \<open>The symmetric matrix of lines 245 to 254.\<close>

definition tensor_matrix :: "vec \<Rightarrow> mat" where
  "tensor_matrix D =
     [[D ! 0, D ! 3, D ! 4],
      [D ! 3, D ! 1, D ! 5],
      [D ! 4, D ! 5, D ! 2]]"

text \<open>
  \<^verbatim>\<open>decompose_tensor(D, scale)\<close>. \<open>eig\<close> stands for \<^verbatim>\<open>np.linalg.eig\<close> and returns the
  eigenvalues and the matrix whose columns are the eigenvectors. \<^verbatim>\<open>D[5]\<close> raises
  IndexError on a shorter \<open>D\<close>, and \<^verbatim>\<open>eigenvecs[:,order]\<close> on a matrix with fewer than
  three columns. \<^verbatim>\<open>eigenvecs.T.flat[:]\<close> lists the columns one after another.
\<close>

definition decompose_tensor :: "(mat \<Rightarrow> vec \<times> mat) \<Rightarrow> vec \<Rightarrow> real \<Rightarrow> error + vec" where
  "decompose_tensor eig D scale =
     (if length D < 6 then Inl (IndexError ''index out of bounds'')
      else
        let (eigenvals, eigenvecs) = eig (tensor_matrix D) in
        if length eigenvals \<noteq> 3 then Inl (ValueError ''not 3 eigenvalues : '')
        else if \<exists>r \<in> set eigenvecs. length r < 3 then Inl (IndexError ''index out of bounds'')
        else
          let order = rev (argsort eigenvals);
              eigenvecs1 = map (\<lambda>r. map (\<lambda>j. r ! j) order) eigenvecs;
              eigenvals1 = rev (sort eigenvals);
              eigenvals2 = map (\<lambda>v. if v < 0 then 0 else v) eigenvals1
          in Inr (map (\<lambda>v. v * scale)
                    (eigenvals2 @ concat (map (col eigenvecs1) [0..<3]))))"

subsection \<open>The scalar maps of the tensor class\<close>

text \<open>
  \<^verbatim>\<open>self.evals\<close> is \<^verbatim>\<open>eig_decomp[:,:,:,0:3]\<close>: for every voxel the first three entries
  of its packed row. The maps are computed elementwise over the voxels, which
  are listed here in one fixed order.
\<close>

definition evals_of :: "vec \<Rightarrow> real \<times> real \<times> real" where
  "evals_of p = (p ! 0, p ! 1, p ! 2)"

definition calc_adc :: "(real \<times> real \<times> real) list \<Rightarrow> real list" where
  "calc_adc evals = map (\<lambda>(ev1, ev2, ev3). (ev1 + ev2 + ev3) / 3) evals"

text \<open>
  Division and square root as numpy computes them on arrays: a zero divisor
  gives \<^verbatim>\<open>nan\<close> or \<^verbatim>\<open>inf\<close> and a negative radicand gives \<^verbatim>\<open>nan\<close>, with a warning and
  without an exception. \<open>None\<close> is such an entry.
\<close>

definition np_divide :: "real \<Rightarrow> real \<Rightarrow> real option" where
  "np_divide a b = (if b = 0 then None else Some (a / b))"

definition np_sqrt :: "real option \<Rightarrow> real option" where
  "np_sqrt x = (case x of None \<Rightarrow> None
                | Some a \<Rightarrow> if a < 0 then None else Some (sqrt a))"

text \<open>
  \<^verbatim>\<open>calc_fa\<close>, lines 111 to 120: the array \<open>ss_ev\<close>, the array \<open>fa\<close> of line 118, and
  the assignment \<^verbatim>\<open>fa[ss_ev == 0] = 0\<close>.
\<close>

definition calc_fa :: "(real \<times> real \<times> real) list \<Rightarrow> real option list" where
  "calc_fa evals =
     (let adc = calc_adc evals;
          ss_ev = map (\<lambda>(ev1, ev2, ev3). ev1\<^sup>2 + ev2\<^sup>2 + ev3\<^sup>2) evals;
          fa = map (\<lambda>((ev1, ev2, ev3), a, ss).
                      np_sqrt (np_divide (1.5 * ((ev1 - a)\<^sup>2 + (ev2 - a)\<^sup>2 + (ev3 - a)\<^sup>2)) ss))
                   (zip evals (zip adc ss_ev))
      in map (\<lambda>(ss, f). if ss = 0 then Some 0 else f) (zip ss_ev fa))"

text \<open>
  Lines 90 to 98 of the constructor, once the fit has returned \<open>eig_decomp\<close>.
  Line 90 reshapes the mask, an array of \<open>X * Y * Z\<close> entries, to the four
  \<open>dims\<close> of the data; numpy raises ValueError unless the two sizes agree.
  Lines 92, 97 and 98 then set \<^verbatim>\<open>self.evals\<close>, \<^verbatim>\<open>self.adc\<close> and \<^verbatim>\<open>self.fa\<close>.

  Modelled from the spec: \<^verbatim>\<open>MaskedView(mask, eig_decomp)\<close> of line 91 is of the
  class missing from the sources. It presents the packed rows of the fitted
  voxels: the three maps are given here for the fitted voxels, in the order
  of the rows of \<open>eig_decomp\<close>.
\<close>

definition tensor_maps ::
  "nat \<times> nat \<times> nat \<times> nat \<Rightarrow> mat
     \<Rightarrow> error + ((real \<times> real \<times> real) list \<times> real list \<times> real option list)" where
  "tensor_maps dims eig_decomp =
     (case dims of (X, Y, Z, g) \<Rightarrow>
        if X * Y * Z \<noteq> X * Y * Z * g
        then Inl (ValueError ''total size of new array must be unchanged'')
        else
          let evals = map evals_of eig_decomp
          in Inr (evals, calc_adc evals, calc_fa evals))"

subsection \<open>WLS_fit\<close>

text \<open>
  The \<open>data\<close> argument of \<^verbatim>\<open>WLS_fit\<close>: a four-dimensional array (given here already
  as line 154 reshapes it, one row per voxel, together with its \<open>dims\<close>), a
  two-dimensional array, or a MaskedView.

  Modelled from the spec: the class \<^verbatim>\<open>dipy.core.maskedview.MaskedView\<close> is missing
  from the sources. The spec calls it an already-flattened masked voxel list,
  each voxel holding \<open>g\<close> intensities: it is the list of its voxel rows, and
  \<^verbatim>\<open>.shape\<close>, \<^verbatim>\<open>np.log\<close> and \<^verbatim>\<open>[:,i]\<close> act on it as on a two-dimensional array. It is
  not an instance of \<^verbatim>\<open>np.ndarray\<close> (the tests of lines 159 and 183 tell the two
  apart).
\<close>

datatype signal =
    NdArray4 "nat \<times> nat \<times> nat \<times> nat" mat
  | NdArray2 mat
  | MaskedView mat

fun voxel_rows :: "signal \<Rightarrow> mat" where
  "voxel_rows (NdArray4 dims d) = d"
| "voxel_rows (NdArray2 d) = d"
| "voxel_rows (MaskedView d) = d"

fun is_ndarray :: "signal \<Rightarrow> bool" where
  "is_ndarray (MaskedView d) = False"
| "is_ndarray _ = True"

text \<open>
  \<^verbatim>\<open>np.log\<close> of an array: the logarithm of a value that is zero or negative is
  \<^verbatim>\<open>-inf\<close> or \<^verbatim>\<open>nan\<close>.
\<close>

definition np_log :: "vec \<Rightarrow> error + vec" where
  "np_log v =
     (if \<forall>x \<in> set v. 0 < x then Inr (map ln v)
      else Inl (NonFinite ''log of a non-positive value''))"

definition np_log2 :: "mat \<Rightarrow> error + mat" where
  "np_log2 M =
     (if \<forall>r \<in> set M. \<forall>x \<in> set r. 0 < x then Inr (map (map ln) M)
      else Inl (NonFinite ''log of a non-positive value''))"

text \<open>\<^verbatim>\<open>np.int16(x)\<close>: the fraction is cut off and the integer wraps to 16 bits.\<close>

definition np_int16 :: "real \<Rightarrow> real" where
  "np_int16 x =
     (let t = (if 0 \<le> x then \<lfloor>x\<rfloor> else \<lceil>x\<rceil>)
      in real_of_int ((t + 32768) mod 65536 - 32768))"

definition dotv :: "vec \<Rightarrow> vec \<Rightarrow> real" where
  "dotv a b = sum_list (map (\<lambda>(x, y). x * y) (zip a b))"

text \<open>
  \<^verbatim>\<open>np.dot\<close> of two matrices, and of a matrix and a vector: ValueError unless the
  inner dimensions agree.
\<close>

definition np_dot :: "mat \<Rightarrow> mat \<Rightarrow> error + mat" where
  "np_dot A B =
     (if \<forall>r \<in> set A. length r = length B
      then Inr (map (\<lambda>r. map (\<lambda>j. dotv r (col B j)) [0..<ncols B]) A)
      else Inl (ValueError ''matrices are not aligned''))"

definition np_dot_mv :: "mat \<Rightarrow> vec \<Rightarrow> error + vec" where
  "np_dot_mv A v =
     (if \<forall>r \<in> set A. length r = length v
      then Inr (map (\<lambda>r. dotv r v) A)
      else Inl (ValueError ''matrices are not aligned''))"

text \<open>
  \<^verbatim>\<open>B*w\<close> for \<open>B\<close> of shape \<open>(g,7)\<close> and \<open>w\<close> of shape \<open>(n,1)\<close>, and \<^verbatim>\<open>a*b\<close> for two
  one-dimensional arrays, with numpy's broadcasting: two lengths fit when
  they are equal or one of them is 1.
\<close>

definition mul_rows :: "mat \<Rightarrow> vec \<Rightarrow> error + mat" where
  "mul_rows B w =
     (if length B = length w then Inr (map (\<lambda>(r, x). map (\<lambda>b. b * x) r) (zip B w))
      else if length w = 1 then Inr (map (map (\<lambda>b. b * w ! 0)) B)
      else if length B = 1 then Inr (map (\<lambda>x. map (\<lambda>b. b * x) (B ! 0)) w)
      else Inl (ValueError ''operands could not be broadcast together''))"

definition np_multiply :: "vec \<Rightarrow> vec \<Rightarrow> error + vec" where
  "np_multiply a b =
     (if length a = length b then Inr (map (\<lambda>(x, y). x * y) (zip a b))
      else if length b = 1 then Inr (map (\<lambda>x. x * b ! 0) a)
      else if length a = 1 then Inr (map (\<lambda>y. a ! 0 * y) b)
      else Inl (ValueError ''operands could not be broadcast together''))"

text \<open>
  Lines 159 to 169: the data as line 160 leaves it, \<open>log_s\<close> and \<open>scale\<close>. Only the
  \<^verbatim>\<open>np.ndarray\<close> branch replaces the values that are not positive.
\<close>

definition log_signal :: "signal \<Rightarrow> error + (mat \<times> mat \<times> real)" where
  "log_signal data =
     (if is_ndarray data
      then
        let d = map (map (\<lambda>v. if v \<le> 0 then 1 else v)) (voxel_rows data)
        in bindE (np_log2 d)
             (\<lambda>l. Inr (d, map (map (\<lambda>x. np_int16 (x * 1000))) l, 1 / 1000))
      else bindE (np_log2 (voxel_rows data)) (\<lambda>l. Inr (voxel_rows data, l, 1)))"

text \<open>
  The body of the loop, lines 207 to 213, for the index \<open>i\<close>: the packed eigen
  result that is stored into \<^verbatim>\<open>eig_decomp[i,:]\<close>. The arguments of \<^verbatim>\<open>np.dot\<close> are
  evaluated from left to right. \<^verbatim>\<open>data[:,i]\<close> is column \<open>i\<close> of \<open>data\<close> and raises
  IndexError when there is no such column.
\<close>

definition wls_voxel ::
  "(mat \<Rightarrow> mat) \<Rightarrow> (mat \<Rightarrow> vec \<times> mat) \<Rightarrow> mat \<Rightarrow> mat \<Rightarrow> mat \<Rightarrow> real \<Rightarrow> nat \<Rightarrow> error + vec" where
  "wls_voxel pinv eig B log_s_ols data scale i =
     (let w = map (\<lambda>x. exp (x * scale)) (log_s_ols ! i) in
      bindE (mul_rows B w) (\<lambda>Bw.
        let P = pinv Bw in
        if ncols data \<le> i then Inl (IndexError ''index out of bounds'')
        else
          bindE (np_log (col data i)) (\<lambda>lg.
          bindE (np_multiply w lg) (\<lambda>wl.
          bindE (np_dot_mv P (map (\<lambda>x. x * scale) wl)) (\<lambda>D.
          decompose_tensor eig (take 6 D) 1)))))"

text \<open>
  The loop of line 193 over the voxel indices: the first exception leaves the
  loop and the function; \<^verbatim>\<open>eig_decomp[i,:] = ...\<close> needs the twelve values of a row.
\<close>

fun fit_loop :: "(nat \<Rightarrow> error + vec) \<Rightarrow> nat list \<Rightarrow> mat \<Rightarrow> error + mat" where
  "fit_loop voxel [] eig_decomp = Inr eig_decomp"
| "fit_loop voxel (i # is) eig_decomp =
     (case voxel i of
        Inl e \<Rightarrow> Inl e
      | Inr p \<Rightarrow>
          if length p = 12 then fit_loop voxel is (eig_decomp[i := p])
          else Inl (ValueError ''could not broadcast input array''))"

text \<open>
  \<^verbatim>\<open>WLS_fit(data, gtab, bval)\<close> with \<^verbatim>\<open>verbose=False\<close>; the diagnostics that
  \<^verbatim>\<open>design_matrix\<close> prints are not part of the result. The reshape of line 220
  does not change the list of voxel rows.
\<close>

definition WLS_fit ::
  "(mat \<Rightarrow> mat) \<Rightarrow> (mat \<Rightarrow> vec \<times> mat) \<Rightarrow> signal \<Rightarrow> mat \<Rightarrow> vec \<Rightarrow> error + (mat \<times> mat)" where
  "WLS_fit pinv eig data gtab bval =
     bindE (log_signal data) (\<lambda>(d, log_s, scale).
     bindE (snd (design_matrix gtab bval)) (\<lambda>B.
     bindE (np_dot B (pinv B)) (\<lambda>H.
     bindE (np_dot log_s H) (\<lambda>ols.
       let log_s_ols = (if is_ndarray data then map (map np_int16) ols else ols) in
       bindE (fit_loop (wls_voxel pinv eig B log_s_ols d scale)
                [0..<length log_s_ols] (zeros (length d) 12))
         (\<lambda>eig_decomp. Inr (eig_decomp, B))))))"

subsection \<open>The constructor of the tensor class\<close>

text \<open>
  Arrays that share memory: a heap maps the address of a buffer to its
  elements in C order. The caller's \<open>data\<close> is a four-dimensional array that
  owns its buffer. A three-dimensional array is a view: its element number \<open>v\<close>
  (in C order) is the buffer's element \<open>offset + v * stride\<close>. An array that owns
  its buffer has offset 0 and stride 1.
\<close>

type_synonym heap = "nat \<Rightarrow> real list"

record ndarray4 =
  base4 :: nat
  dims :: "nat \<times> nat \<times> nat \<times> nat"

record ndview =
  base :: nat
  offset :: nat
  stride :: nat
  shape :: "nat list"

definition positions :: "ndview \<Rightarrow> nat list" where
  "positions a = map (\<lambda>v. offset a + v * stride a) [0..<prod_list (shape a)]"

text \<open>\<^verbatim>\<open>data[:,:,:,0]\<close>: basic slicing, a view on the buffer of \<open>data\<close>.\<close>

definition b0_view :: "ndarray4 \<Rightarrow> ndview" where
  "b0_view data =
     (case dims data of (X, Y, Z, g) \<Rightarrow>
        \<lparr>base = base4 data, offset = 0, stride = g, shape = [X, Y, Z]\<rparr>)"

text \<open>\<^verbatim>\<open>a[a < t] = 0\<close>: writes through the view into the buffer.\<close>

definition setitem_less :: "heap \<Rightarrow> ndview \<Rightarrow> real \<Rightarrow> heap" where
  "setitem_less h a t =
     h(base a := map (\<lambda>k. if k \<in> set (positions a) \<and> h (base a) ! k < t then 0
                           else h (base a) ! k)
                   [0..<length (h (base a))])"

text \<open>
  \<^verbatim>\<open>tensor.__init__\<close>, lines 68 to 74, on a heap; the result is the heap after the
  call and what the call returns or raises. In Python 2 with the numpy of the
  time, \<^verbatim>\<open>mask == None\<close> is false and \<^verbatim>\<open>mask != None\<close> is true for an array.
  \<open>fit\<close> stands for lines 76 to 98, which go through the MaskedView class: they
  read the arrays and build new ones.
\<close>

definition tensor_init ::
  "(heap \<Rightarrow> ndarray4 \<Rightarrow> ndview \<Rightarrow> error + 'r) \<Rightarrow> heap \<Rightarrow> ndarray4 \<Rightarrow> ndview option \<Rightarrow> real
     \<Rightarrow> heap \<times> (error + 'r)" where
  "tensor_init fit h data mask_arg thresh =
     (case dims data of (X, Y, Z, g) \<Rightarrow>
        if mask_arg = None \<and> g = 0 then (h, Inl (IndexError ''index out of bounds''))
        else
          let (h1, mask1) =
                (case mask_arg of
                   None \<Rightarrow> (setitem_less h (b0_view data) thresh, b0_view data)
                 | Some m \<Rightarrow> (h, m))
          in if [X, Y, Z] \<noteq> shape mask1
             then (h1, Inl (ValueError ''Data image and mask MUST have same 3D volume shape!''))
             else (h1, fit h1 data mask1))"

section \<open>Properties\<close>

subsection \<open>The design matrix\<close>

text \<open>
  Claim C2, as stated: for every gradient table and b-value vector the design
  matrix is \<open>g\<times>7\<close>, its 7th column is all ones and the first six columns are the
  negated monomials. On the code the 7th column is not all ones: for one
  gradient \<open>(1,0,0)\<close> with b-value 1000 the only row ends in \<open>-1\<close>, because line
  314 negates the whole matrix.
\<close>

theorem design_matrix_ones_counterexample:
  "design_matrix [[1], [0], [0]] [1000] = ([], Inr [[- 1000, 0, 0, 0, 0, 0, - 1]])
   \<and> [[- 1000, 0, 0, 0, 0, 0, - 1]] ! 0 ! 6 \<noteq> (1::real)"
  by (simp add: design_matrix_def ncols_def build_B_def B_row_def)

text \<open>
  Claim C2, amended: for every gradient table with (at least) three rows of \<open>g\<close>
  entries and every vector of \<open>g\<close> b-values, the builder prints nothing and
  returns a matrix of \<open>g\<close> rows; row \<open>j\<close> holds the six monomials of direction \<open>j\<close>
  (component product times b-value, cross terms doubled), negated, and then
  \<open>-1\<close>: the 7th column is all minus ones.
\<close>

theorem design_matrix_negated:
  assumes "3 \<le> length gtab" and "\<forall>r \<in> set gtab. length r = length bval"
  shows "\<exists>B. design_matrix gtab bval = ([], Inr B) \<and> length B = length bval \<and>
           (\<forall>j < length bval. B ! j =
              [- (gtab ! 0 ! j * gtab ! 0 ! j * bval ! j),
               - (gtab ! 1 ! j * gtab ! 1 ! j * bval ! j),
               - (gtab ! 2 ! j * gtab ! 2 ! j * bval ! j),
               - (gtab ! 0 ! j * gtab ! 1 ! j * 2 * bval ! j),
               - (gtab ! 0 ! j * gtab ! 2 ! j * 2 * bval ! j),
               - (gtab ! 1 ! j * gtab ! 2 ! j * 2 * bval ! j),
               - 1])"
proof -
  from assms(1) obtain r rs where g: "gtab = r # rs" by (cases gtab) auto
  with assms(2) have "ncols gtab = length bval" by (simp add: ncols_def)
  then have "design_matrix gtab bval =
      ([], Inr (map (\<lambda>j. map uminus (B_row gtab bval j)) [0..<length bval]))"
    using assms(1) by (simp add: design_matrix_def build_B_def)
  then show ?thesis by (simp add: B_row_def)
qed

theorem design_matrix_negated_witness:
  "\<exists>B. design_matrix [[1, 0], [0, 1], [0, 0]] [1000, 500] = ([], Inr B) \<and> length B = 2 \<and>
     B ! 0 = [- 1000, 0, 0, 0, 0, 0, - 1] \<and> B ! 1 = [0, - 500, 0, 0, 0, 0, - 1]"
  using design_matrix_negated [of "[[1, 0], [0, 1], [0, 0]]" "[1000, 500]"]
  by (auto simp: nth_Cons')

text \<open>
  The recovery of lines 296 to 303 raises for every table that has not exactly
  one row, so for every gradient table of three rows: the diagnostic is
  printed, then the assignment of line 303 fails.
\<close>

lemma design_matrix_recovery_raises:
  assumes "length gtab \<noteq> 1" and "ncols gtab \<noteq> length bval"
  shows "design_matrix gtab bval =
     ([GradientBValueMismatch],
      Inl (ValueError ''shape mismatch: value array could not be broadcast to indexing result''))"
  using assms by (simp add: design_matrix_def setitem_where_def bindE_def)

text \<open>
  Claim C9: when the column count of the gradient table differs from the
  number of b-values, the builder prints a diagnostic, does not fail, and
  builds the matrix from a zero-padded table. The code at a table of two
  directions with four b-values, three of them positive: the diagnostic is
  printed and the call raises ValueError.
\<close>

theorem design_matrix_recovery_fails:
  "design_matrix [[1, 0], [0, 1], [0, 0]] [0, 1000, 1000, 1000] =
     ([GradientBValueMismatch],
      Inl (ValueError ''shape mismatch: value array could not be broadcast to indexing result''))"
  by (simp add: design_matrix_def setitem_where_def bindE_def ncols_def)

text \<open>
  The same at the input the recovery was written for: the b0 column was
  stripped from the table, and the two positive b-values match its two columns.
\<close>

lemma design_matrix_recovery_fails_b0_stripped:
  "design_matrix [[1, 0], [0, 1], [0, 0]] [0, 1000, 1000] =
     ([GradientBValueMismatch],
      Inl (ValueError ''shape mismatch: value array could not be broadcast to indexing result''))"
  by (simp add: design_matrix_def setitem_where_def bindE_def ncols_def)

subsection \<open>ADC and FA\<close>

text \<open>
  Claim C5: for every voxel the ADC map holds \<open>(\<lambda>1 + \<lambda>2 + \<lambda>3) / 3\<close> of that voxel's
  eigenvalue triple; the value at a voxel depends on no other voxel.
\<close>

theorem calc_adc_mean:
  assumes "i < length evals" and "evals ! i = (l1, l2, l3)"
  shows "length (calc_adc evals) = length evals \<and> calc_adc evals ! i = (l1 + l2 + l3) / 3"
  using assms by (simp add: calc_adc_def)

theorem calc_adc_mean_witness:
  "(1::nat) < length [(3, 2, 1), (6, 0, 0::real)] \<and> [(3, 2, 1), (6, 0, 0::real)] ! 1 = (6, 0, 0)
   \<and> calc_adc [(3, 2, 1), (6, 0, 0)] ! 1 = 2"
  using calc_adc_mean [of 1 "[(3, 2, 1), (6, 0, 0)]" 6 0 0] by simp

lemma np_sqrt_divide:
  "s \<noteq> 0 \<Longrightarrow> 0 \<le> n / s \<Longrightarrow> np_sqrt (np_divide n s) = Some (sqrt (n / s))"
  by (simp add: np_sqrt_def np_divide_def)

text \<open>
  Claim C4: for every voxel, FA is \<open>sqrt (1.5 * ((\<lambda>1-ADC)\<^sup>2 + (\<lambda>2-ADC)\<^sup>2 + (\<lambda>3-ADC)\<^sup>2)
  / (\<lambda>1\<^sup>2 + \<lambda>2\<^sup>2 + \<lambda>3\<^sup>2))\<close>, and it is exactly 0 whenever \<open>\<lambda>1\<^sup>2 + \<lambda>2\<^sup>2 + \<lambda>3\<^sup>2 = 0\<close>: the entry
  is a number in both cases, never the \<^verbatim>\<open>nan\<close> of the division by zero.
\<close>

theorem calc_fa_formula:
  assumes "i < length evals" and "evals ! i = (l1, l2, l3)"
  shows "length (calc_fa evals) = length evals \<and>
         calc_fa evals ! i =
           Some (if l1\<^sup>2 + l2\<^sup>2 + l3\<^sup>2 = 0 then 0
                 else sqrt (1.5 * ((l1 - (l1 + l2 + l3) / 3)\<^sup>2 + (l2 - (l1 + l2 + l3) / 3)\<^sup>2
                                    + (l3 - (l1 + l2 + l3) / 3)\<^sup>2)
                              / (l1\<^sup>2 + l2\<^sup>2 + l3\<^sup>2)))"
proof -
  let ?a = "(l1 + l2 + l3) / 3"
  let ?ss = "l1\<^sup>2 + l2\<^sup>2 + l3\<^sup>2"
  let ?num = "1.5 * ((l1 - ?a)\<^sup>2 + (l2 - ?a)\<^sup>2 + (l3 - ?a)\<^sup>2)"
  have len: "length (calc_fa evals) = length evals"
    by (simp add: calc_fa_def calc_adc_def Let_def)
  have nonneg: "0 \<le> ?num / ?ss"
    by (intro divide_nonneg_nonneg mult_nonneg_nonneg add_nonneg_nonneg) simp_all
  have "calc_fa evals ! i = (if ?ss = 0 then Some 0 else np_sqrt (np_divide ?num ?ss))"
    using assms by (simp add: calc_fa_def calc_adc_def Let_def)
  also have "\<dots> = Some (if ?ss = 0 then 0 else sqrt (?num / ?ss))"
  proof (cases "?ss = 0")
    case True
    then show ?thesis by (simp only: if_True refl)
  next
    case False
    have "np_sqrt (np_divide ?num ?ss) = Some (sqrt (?num / ?ss))"
      using False nonneg by (rule np_sqrt_divide)
    with False show ?thesis by (simp only: if_False)
  qed
  finally show ?thesis using len by simp
qed

theorem calc_fa_formula_witness:
  "(0::nat) < length [(0, 0, 0::real), (2, 0, 0)] \<and> [(0, 0, 0::real), (2, 0, 0)] ! 0 = (0, 0, 0)
   \<and> calc_fa [(0, 0, 0), (2, 0, 0)] ! 0 = Some 0"
  using calc_fa_formula [of 0 "[(0, 0, 0), (2, 0, 0)]" 0 0 0] by simp

subsection \<open>decompose_tensor\<close>

lemma map_insort_key: "map f (insort_key f x xs) = insort (f x) (map f xs)"
  by (induct xs) auto

lemma map_sort_key: "map f (sort_key f xs) = sort (map f xs)"
  by (induct xs) (simp_all add: map_insort_key)

lemma sort_argsort: "sort a = map (\<lambda>i. a ! i) (argsort a)"
  by (simp add: argsort_def map_sort_key map_nth)

lemma list3: "length xs = 3 \<Longrightarrow> \<exists>a b c. xs = [a, b, c]"
  by (auto simp: numeral_3_eq_3 length_Suc_conv)

lemma tensor_maps_Inr:
  assumes "tensor_maps ds E = Inr (evals, adc, fa)"
  shows "evals = map evals_of E \<and> adc = calc_adc evals \<and> fa = calc_fa evals"
  using assms by (auto simp: tensor_maps_def Let_def split: prod.splits if_splits)

lemma calc_adc_at:
  assumes "i < length evals" and "evals ! i = (l1, l2, l3)"
  shows "calc_adc evals ! i = (l1 + l2 + l3) / 3"
  using assms by (simp add: calc_adc_def)

lemma calc_fa_at:
  assumes "i < length evals" and "evals ! i = (l1, l2, l3)"
  shows "calc_fa evals ! i =
           Some (if l1\<^sup>2 + l2\<^sup>2 + l3\<^sup>2 = 0 then 0
                 else sqrt (1.5 * ((l1 - (l1 + l2 + l3) / 3)\<^sup>2 + (l2 - (l1 + l2 + l3) / 3)\<^sup>2
                                    + (l3 - (l1 + l2 + l3) / 3)\<^sup>2)
                              / (l1\<^sup>2 + l2\<^sup>2 + l3\<^sup>2)))"
proof -
  let ?a = "(l1 + l2 + l3) / 3"
  let ?ss = "l1\<^sup>2 + l2\<^sup>2 + l3\<^sup>2"
  let ?num = "1.5 * ((l1 - ?a)\<^sup>2 + (l2 - ?a)\<^sup>2 + (l3 - ?a)\<^sup>2)"
  have nonneg: "0 \<le> ?num / ?ss"
    by (intro divide_nonneg_nonneg mult_nonneg_nonneg add_nonneg_nonneg) simp_all
  have "calc_fa evals ! i = (if ?ss = 0 then Some 0 else np_sqrt (np_divide ?num ?ss))"
    using assms by (simp add: calc_fa_def calc_adc_def Let_def)
  also have "\<dots> = Some (if ?ss = 0 then 0 else sqrt (?num / ?ss))"
  proof (cases "?ss = 0")
    case True
    then show ?thesis by (simp only: if_True refl)
  next
    case False
    have "np_sqrt (np_divide ?num ?ss) = Some (sqrt (?num / ?ss))"
      using False nonneg by (rule np_sqrt_divide)
    with False show ?thesis by (simp only: if_False)
  qed
  finally show ?thesis .
qed

text \<open>
  Claim C3: for a tensor of six components whose decomposition gives three
  eigenvalues \<open>vals\<close> and the \<open>3\<times>3\<close> matrix \<open>vecs\<close> of eigenvectors (as columns), and a
  scale that is not negative (the docstring takes it from 1 upwards, the fit
  passes 1), the packed result has twelve entries; its eigenvalues are in
  descending order and not negative; \<open>rev (argsort vals)\<close> is a permutation of
  the three indices such that entry \<open>k\<close> is the eigenvalue of that index, set to
  exactly 0 when negative, and entries \<open>3 + 3k, ..., 3 + 3k + 2\<close> are the matching
  column of \<open>vecs\<close>. Downstream: whenever lines 90 to 98 produce the maps from an
  array \<open>eig_decomp\<close> that holds this packed result as the row of voxel \<open>i\<close>, the
  eigenvalue triple, the ADC and the FA of voxel \<open>i\<close> are those of the three
  clamped values \<open>l1\<close>, \<open>l2\<close>, \<open>l3\<close>, and of nothing else.
\<close>

theorem decompose_tensor_sorted_clamped:
  assumes D: "6 \<le> length D"
    and e: "eig (tensor_matrix D) = (vals, vecs)"
    and lv: "length vals = 3"
    and lm: "length vecs = 3" "\<forall>r \<in> set vecs. length r = 3"
    and sc: "0 \<le> scale"
  shows "\<exists>p. decompose_tensor eig D scale = Inr p \<and> length p = 12 \<and>
           p ! 1 \<le> p ! 0 \<and> p ! 2 \<le> p ! 1 \<and> 0 \<le> p ! 2 \<and>
           distinct (rev (argsort vals)) \<and> set (rev (argsort vals)) = {0, 1, 2} \<and>
           (\<forall>k < 3.
              p ! k = scale * (if vals ! (rev (argsort vals) ! k) < 0 then 0
                                else vals ! (rev (argsort vals) ! k)) \<and>
              (\<forall>a < 3. p ! (3 + 3 * k + a) = scale * vecs ! a ! (rev (argsort vals) ! k))) \<and>
           (let c = (\<lambda>k. if vals ! (rev (argsort vals) ! k) < 0 then 0
                          else vals ! (rev (argsort vals) ! k));
                l1 = scale * c 0; l2 = scale * c 1; l3 = scale * c 2
            in \<forall>ds eig_decomp i evals adc fa.
                 tensor_maps ds eig_decomp = Inr (evals, adc, fa) \<and>
                 i < length eig_decomp \<and> eig_decomp ! i = p \<longrightarrow>
                   evals ! i = (l1, l2, l3) \<and>
                   adc ! i = (l1 + l2 + l3) / 3 \<and>
                   fa ! i =
                     Some (if l1\<^sup>2 + l2\<^sup>2 + l3\<^sup>2 = 0 then 0
                           else sqrt (1.5 * ((l1 - (l1 + l2 + l3) / 3)\<^sup>2
                                              + (l2 - (l1 + l2 + l3) / 3)\<^sup>2
                                              + (l3 - (l1 + l2 + l3) / 3)\<^sup>2)
                                        / (l1\<^sup>2 + l2\<^sup>2 + l3\<^sup>2))))"
proof -
  let ?order = "rev (argsort vals)"
  have len_o: "length ?order = 3" using lv by (simp add: argsort_def)
  then obtain o0 o1 o2 where o: "?order = [o0, o1, o2]" using list3 by blast
  have perm: "distinct ?order" "set ?order = {0, 1, 2}"
    using lv by (auto simp: argsort_def)
  from lm(1) obtain r0 r1 r2 where v: "vecs = [r0, r1, r2]" using list3 by blast
  have rs: "rev (sort vals) = map (\<lambda>i. vals ! i) ?order"
    by (simp add: sort_argsort rev_map)
  have "sorted (rev (map (\<lambda>i. vals ! i) ?order))"
    using rs sorted_sort [of vals] by (metis rev_rev_ident)
  then have desc: "vals ! o2 \<le> vals ! o1" "vals ! o1 \<le> vals ! o0"
    using o by simp_all
  let ?c = "\<lambda>j. if vals ! j < 0 then 0 else vals ! j"
  let ?p = "map (\<lambda>v. v * scale)
              ([?c o0, ?c o1, ?c o2] @
               [r0 ! o0, r1 ! o0, r2 ! o0, r0 ! o1, r1 ! o1, r2 ! o1, r0 ! o2, r1 ! o2, r2 ! o2])"
  have no_short: "\<not> (\<exists>r \<in> set vecs. length r < 3)" using lm(2) by auto
  have dec: "decompose_tensor eig D scale = Inr ?p"
    using D lv no_short
    unfolding decompose_tensor_def e
    by (simp add: Let_def rs o v col_def upt_rec numeral_3_eq_3 del: upt_Suc)
  have len: "length ?p = 12" by simp
  have ord: "?p ! 1 \<le> ?p ! 0" "?p ! 2 \<le> ?p ! 1" "0 \<le> ?p ! 2"
    using desc sc by (auto intro!: mult_right_mono)
  have entries: "\<forall>k < 3. ?p ! k = scale * ?c (?order ! k) \<and>
        (\<forall>a < 3. ?p ! (3 + 3 * k + a) = scale * vecs ! a ! (?order ! k))"
    unfolding o v by (simp add: numeral_3_eq_3 less_Suc_eq all_conj_distrib)
  let ?l1 = "scale * ?c (?order ! 0)"
  let ?l2 = "scale * ?c (?order ! 1)"
  let ?l3 = "scale * ?c (?order ! 2)"
  have triple: "evals_of ?p = (?l1, ?l2, ?l3)"
    unfolding o by (simp add: evals_of_def)
  have maps: "evals ! i = (?l1, ?l2, ?l3) \<and>
      adc ! i = (?l1 + ?l2 + ?l3) / 3 \<and>
      fa ! i =
        Some (if ?l1\<^sup>2 + ?l2\<^sup>2 + ?l3\<^sup>2 = 0 then 0
              else sqrt (1.5 * ((?l1 - (?l1 + ?l2 + ?l3) / 3)\<^sup>2
                                 + (?l2 - (?l1 + ?l2 + ?l3) / 3)\<^sup>2
                                 + (?l3 - (?l1 + ?l2 + ?l3) / 3)\<^sup>2)
                           / (?l1\<^sup>2 + ?l2\<^sup>2 + ?l3\<^sup>2)))"
    if m: "tensor_maps ds E = Inr (evals, adc, fa)" and i: "i < length E" and row: "E ! i = ?p"
    for ds E i evals adc fa
  proof -
    from tensor_maps_Inr [OF m]
    have ev: "evals = map evals_of E" and a: "adc = calc_adc evals" and f: "fa = calc_fa evals"
      by simp_all
    from ev i have li: "i < length evals" by simp
    from ev i row triple have t: "evals ! i = (?l1, ?l2, ?l3)" by simp
    show ?thesis
      unfolding a f using t calc_adc_at [OF li t] calc_fa_at [OF li t] by simp
  qed
  show ?thesis
    unfolding Let_def
    using dec len ord entries perm maps by (intro exI [of _ ?p]) blast
qed

text \<open>
  The diagonal tensor with \<open>Dxx = 1\<close>, \<open>Dyy = 3\<close>, \<open>Dzz = -2\<close>; on a diagonal matrix the
  decomposition returns the diagonal and the unit vectors. One voxel with one
  gradient, so that line 90 goes through: the ADC of the voxel is the mean
  \<open>4/3\<close> of the clamped values 3, 1 and 0.
\<close>

theorem decompose_tensor_sorted_clamped_witness:
  "6 \<le> length [1, 3, - 2, 0, 0, 0 :: real] \<and>
   (\<lambda>M. ([M ! 0 ! 0, M ! 1 ! 1, M ! 2 ! 2], [[1, 0, 0], [0, 1, 0], [0, 0, 1]]))
      (tensor_matrix [1, 3, - 2, 0, 0, 0]) = ([1, 3, - 2], [[1, 0, 0], [0, 1, 0], [0, 0, 1]]) \<and>
   length [1, 3, - 2 :: real] = 3 \<and> length [[1, 0, 0], [0, 1, 0], [0, 0, 1 :: real]] = 3 \<and>
   map length [[1, 0, 0], [0, 1, 0], [0, 0, 1 :: real]] = [3, 3, 3] \<and> (0::real) \<le> 1 \<and>
   (\<exists>p evals adc fa.
        decompose_tensor
          (\<lambda>M. ([M ! 0 ! 0, M ! 1 ! 1, M ! 2 ! 2], [[1, 0, 0], [0, 1, 0], [0, 0, 1]]))
          [1, 3, - 2, 0, 0, 0] 1 = Inr p \<and>
        length p = 12 \<and> p ! 1 \<le> p ! 0 \<and> p ! 2 \<le> p ! 1 \<and> 0 \<le> p ! 2 \<and>
        tensor_maps (1, 1, 1, 1) [p] = Inr (evals, adc, fa) \<and>
        evals ! 0 = (3, 1, 0) \<and> adc ! 0 = 4 / 3)"
proof -
  let ?eig = "\<lambda>M::mat. ([M ! 0 ! 0, M ! 1 ! 1, M ! 2 ! 2], [[1, 0, 0], [0, 1, 0], [0, 0, 1 :: real]])"
  have h1: "6 \<le> length [1, 3, - 2, 0, 0, 0 :: real]" by simp
  have h2: "?eig (tensor_matrix [1, 3, - 2, 0, 0, 0]) = ([1, 3, - 2], [[1, 0, 0], [0, 1, 0], [0, 0, 1]])"
    by (simp add: tensor_matrix_def)
  have h3: "length [1, 3, - 2 :: real] = 3" by simp
  have h4: "length [[1, 0, 0], [0, 1, 0], [0, 0, 1 :: real]] = 3" by simp
  have h5: "\<forall>r \<in> set [[1, 0, 0], [0, 1, 0], [0, 0, 1 :: real]]. length r = 3" by simp
  have h6: "(0::real) \<le> 1" by simp
  have order: "rev (argsort [1, 3, - 2]) = [1, 0, 2]"
    by (simp add: argsort_def upt_rec numeral_3_eq_3 del: upt_Suc)
  from decompose_tensor_sorted_clamped [where eig = ?eig and D = "[1, 3, - 2, 0, 0, 0]"
      and vals = "[1, 3, - 2]" and vecs = "[[1, 0, 0], [0, 1, 0], [0, 0, 1]]" and scale = 1,
      OF h1 h2 h3 h4 h5 h6]
  obtain p where p: "decompose_tensor ?eig [1, 3, - 2, 0, 0, 0] 1 = Inr p" "length p = 12"
    "p ! 1 \<le> p ! 0" "p ! 2 \<le> p ! 1" "0 \<le> p ! 2"
    and maps: "\<And>ds E i evals adc fa.
       tensor_maps ds E = Inr (evals, adc, fa) \<Longrightarrow> i < length E \<Longrightarrow> E ! i = p \<Longrightarrow>
       evals ! i = (3, 1, 0) \<and> adc ! i = 4 / 3"
    unfolding Let_def order by (auto simp: numeral_2_eq_2)
  obtain evals adc fa where m: "tensor_maps (1, 1, 1, 1) [p] = Inr (evals, adc, fa)"
    by (simp add: tensor_maps_def Let_def)
  have "evals ! 0 = (3, 1, 0) \<and> adc ! 0 = 4 / 3"
    by (rule maps [OF m]) simp_all
  with p m have "\<exists>p evals adc fa.
        decompose_tensor ?eig [1, 3, - 2, 0, 0, 0] 1 = Inr p \<and>
        length p = 12 \<and> p ! 1 \<le> p ! 0 \<and> p ! 2 \<le> p ! 1 \<and> 0 \<le> p ! 2 \<and>
        tensor_maps (1, 1, 1, 1) [p] = Inr (evals, adc, fa) \<and>
        evals ! 0 = (3, 1, 0) \<and> adc ! 0 = 4 / 3"
    by blast
  with h1 h2 h3 h4 h6 show ?thesis by simp
qed

lemma decompose_tensor_example:
  "decompose_tensor
     (\<lambda>M. ([M ! 0 ! 0, M ! 1 ! 1, M ! 2 ! 2], [[1, 0, 0], [0, 1, 0], [0, 0, 1]]))
     [1, 3, - 2, 0, 0, 0] 1 = Inr [3, 1, 0,  0, 1, 0,  1, 0, 0,  0, 0, 1]"
  by (simp add: decompose_tensor_def tensor_matrix_def argsort_def col_def upt_rec numeral_3_eq_3
        del: upt_Suc)

subsection \<open>WLS_fit\<close>

lemma bindE_Inl [simp]: "bindE (Inl e) f = Inl e"
  by (simp add: bindE_def)

lemma bindE_Inr [simp]: "bindE (Inr x) f = f x"
  by (simp add: bindE_def)

lemma np_int16_0 [simp]: "np_int16 0 = 0"
  by (simp add: np_int16_def)

text \<open>
  Claim C1: for every voxel \<open>i\<close> the stage solves \<open>D_i\<close> from voxel \<open>i\<close>'s own
  g-length signal vector. Line 210 takes \<^verbatim>\<open>data[:,i]\<close>, the column \<open>i\<close> of the
  voxel-by-gradient array: the signal of every voxel under gradient \<open>i\<close>. On two
  voxels with three gradients each (and a pseudoinverse of the shape numpy
  returns) the product of the three weights with the two logarithms cannot be
  formed and the fit raises ValueError at the first voxel.
\<close>

theorem WLS_fit_takes_column:
  assumes "length (pinv [[- 1000, 0, 0, 0, 0, 0, - 1], [0, - 1000, 0, 0, 0, 0, - 1],
                         [0, 0, - 1000, 0, 0, 0, - 1]]) = 7"
      and "ncols (pinv [[- 1000, 0, 0, 0, 0, 0, - 1], [0, - 1000, 0, 0, 0, 0, - 1],
                        [0, 0, - 1000, 0, 0, 0, - 1]]) = 3"
  shows "WLS_fit pinv eig (NdArray2 [[1, 1, 1], [1, 1, 1]])
           [[1, 0, 0], [0, 1, 0], [0, 0, 1]] [1000, 1000, 1000]
         = Inl (ValueError ''operands could not be broadcast together'')"
  using assms
  by (simp add: WLS_fit_def log_signal_def np_log2_def design_matrix_def ncols_def build_B_def
        B_row_def np_dot_def wls_voxel_def mul_rows_def col_def np_log_def np_multiply_def Let_def
        upt_rec zeros_def)

theorem WLS_fit_takes_column_witness:
  "length ((\<lambda>M. replicate 7 [0, 0, 0])
             [[- 1000, 0, 0, 0, 0, 0, - 1], [0, - 1000, 0, 0, 0, 0, - 1],
              [0, 0, - 1000, 0, 0, 0, - 1 :: real]] :: mat) = 7 \<and>
   ncols ((\<lambda>M. replicate 7 [0, 0, 0])
             [[- 1000, 0, 0, 0, 0, 0, - 1], [0, - 1000, 0, 0, 0, 0, - 1],
              [0, 0, - 1000, 0, 0, 0, - 1 :: real]]) = 3 \<and>
   WLS_fit (\<lambda>M. replicate 7 [0, 0, 0])
       (\<lambda>M. ([M ! 0 ! 0, M ! 1 ! 1, M ! 2 ! 2], [[1, 0, 0], [0, 1, 0], [0, 0, 1]]))
       (NdArray2 [[1, 1, 1], [1, 1, 1]])
       [[1, 0, 0], [0, 1, 0], [0, 0, 1]] [1000, 1000, 1000]
     = Inl (ValueError ''operands could not be broadcast together'')"
  using WLS_fit_takes_column [of "\<lambda>M. replicate 7 [0, 0, 0]"
      "\<lambda>M. ([M ! 0 ! 0, M ! 1 ! 1, M ! 2 ! 2], [[1, 0, 0], [0, 1, 0], [0, 0, 1]])"]
  by (simp add: ncols_def numeral_eq_Suc)

text \<open>
  Where the shapes do agree (as many voxels as gradients) nothing is raised
  and the result for voxel 0 does not depend on the signals that voxel 0 has
  under the other gradients.
\<close>

lemma wls_voxel_ignores_own_row:
  "wls_voxel pinv eig B log_s_ols [[a, b], [c, d]] scale 0
     = wls_voxel pinv eig B log_s_ols [[a, b'], [c, d']] scale 0"
  by (simp add: wls_voxel_def ncols_def col_def)

text \<open>
  Claim C7: every signal value that is not positive is replaced by 1 before a
  logarithm is taken of it, for a plain array and for a masked voxel list
  alike. For a masked voxel list the code takes the logarithm of the data as
  they are (line 168): on a voxel with the signals 0 and 5 line 168 takes the
  logarithm of 0, whatever the other arguments are.
\<close>

theorem WLS_fit_masked_log_unclamped:
  "WLS_fit pinv eig (MaskedView [[0, 5]]) gtab bval
     = Inl (NonFinite ''log of a non-positive value'')"
  by (simp add: WLS_fit_def log_signal_def np_log2_def)

text \<open>The branch for a plain array does replace them, and its logarithms are finite.\<close>

lemma log_signal_ndarray_clamped:
  assumes "is_ndarray data"
  shows "\<exists>d log_s. log_signal data = Inr (d, log_s, 1 / 1000) \<and>
           d = map (map (\<lambda>v. if v \<le> 0 then 1 else v)) (voxel_rows data) \<and>
           (\<forall>r \<in> set d. \<forall>x \<in> set r. 0 < x)"
proof -
  let ?d = "map (map (\<lambda>v::real. if v \<le> 0 then 1 else v)) (voxel_rows data)"
  have pos: "\<forall>r \<in> set ?d. \<forall>x \<in> set r. 0 < x" by auto
  have "np_log2 ?d = Inr (map (map ln) ?d)" by (auto simp: np_log2_def)
  then show ?thesis using assms pos unfolding log_signal_def Let_def by simp
qed

lemma fit_loop_error:
  assumes "i \<in> set idx" and "voxel i = Inl e"
  shows "\<exists>e'. fit_loop voxel idx eig_decomp = Inl e'"
  using assms
proof (induction idx arbitrary: eig_decomp)
  case Nil
  then show ?case by simp
next
  case (Cons j js)
  then show ?case by (cases "voxel j") auto
qed

lemma fit_loop_first_error:
  assumes "i \<in> set idx" and "voxel i = Inl e"
    and "\<forall>j \<in> set (takeWhile (\<lambda>j. j \<noteq> i) idx). \<exists>p. voxel j = Inr p \<and> length p = 12"
  shows "fit_loop voxel idx eig_decomp = Inl e"
  using assms
proof (induction idx arbitrary: eig_decomp)
  case Nil
  then show ?case by simp
next
  case (Cons j js)
  show ?case
  proof (cases "j = i")
    case True
    with Cons.prems(2) show ?thesis by simp
  next
    case False
    with Cons.prems obtain p where p: "voxel j = Inr p" "length p = 12" by auto
    from False Cons.prems have "i \<in> set js"
      "\<forall>j \<in> set (takeWhile (\<lambda>j. j \<noteq> i) js). \<exists>p. voxel j = Inr p \<and> length p = 12" by auto
    from Cons.IH [OF this(1) Cons.prems(2) this(2)] p show ?thesis by simp
  qed
qed

lemma decompose_tensor_not_3:
  assumes "6 \<le> length D" and "length (fst (eig (tensor_matrix D))) \<noteq> 3"
  shows "decompose_tensor eig D scale = Inl (ValueError ''not 3 eigenvalues : '')"
  using assms by (cases "eig (tensor_matrix D)") (simp add: decompose_tensor_def)

text \<open>
  Claim C8: when the decomposition of a tensor does not give exactly three
  eigenvalues, \<^verbatim>\<open>decompose_tensor\<close> raises the ValueError of line 260; and when
  that is the outcome of the loop body at some voxel \<open>i\<close>, the loop of the fit
  returns no array at all: it ends with an exception, and with this one when
  the voxels before \<open>i\<close> went through.
\<close>

theorem decomposition_error_aborts_fit:
  assumes "6 \<le> length D" and "length (fst (eig (tensor_matrix D))) \<noteq> 3"
    and "i \<in> set idx" and "voxel i = decompose_tensor eig D scale"
  shows "decompose_tensor eig D scale = Inl (ValueError ''not 3 eigenvalues : '') \<and>
         (\<exists>e. fit_loop voxel idx eig_decomp = Inl e) \<and>
         ((\<forall>j \<in> set (takeWhile (\<lambda>j. j \<noteq> i) idx). \<exists>p. voxel j = Inr p \<and> length p = 12) \<longrightarrow>
            fit_loop voxel idx eig_decomp = Inl (ValueError ''not 3 eigenvalues : ''))"
proof -
  have d: "decompose_tensor eig D scale = Inl (ValueError ''not 3 eigenvalues : '')"
    using assms(1,2) by (rule decompose_tensor_not_3)
  with assms(4) have v: "voxel i = Inl (ValueError ''not 3 eigenvalues : '')" by simp
  have "\<exists>e. fit_loop voxel idx eig_decomp = Inl e"
    using assms(3) v by (rule fit_loop_error)
  moreover have "fit_loop voxel idx eig_decomp = Inl (ValueError ''not 3 eigenvalues : '')"
    if "\<forall>j \<in> set (takeWhile (\<lambda>j. j \<noteq> i) idx). \<exists>p. voxel j = Inr p \<and> length p = 12"
    using assms(3) v that by (rule fit_loop_first_error)
  ultimately show ?thesis using d by blast
qed

text \<open>
  An exception of the loop is the outcome of \<^verbatim>\<open>WLS_fit\<close>: nothing catches it.
\<close>

lemma WLS_fit_loop_error:
  assumes "log_signal data = Inr (d, log_s, scale)"
    and "snd (design_matrix gtab bval) = Inr B"
    and "np_dot B (pinv B) = Inr H"
    and "np_dot log_s H = Inr ols"
    and "fit_loop (wls_voxel pinv eig B (if is_ndarray data then map (map np_int16) ols else ols) d scale)
           [0..<length ols] (zeros (length d) 12) = Inl e"
  shows "WLS_fit pinv eig data gtab bval = Inl e"
  using assms by (cases "is_ndarray data") (simp_all add: WLS_fit_def Let_def)

text \<open>
  One voxel with one gradient, a pseudoinverse that is all zeros and a
  decomposition that gives two eigenvalues.
\<close>

lemma ex_design: "snd (design_matrix [[1], [0], [0]] [1000]) = Inr [[- 1000, 0, 0, 0, 0, 0, - 1]]"
  by (simp add: design_matrix_def ncols_def build_B_def B_row_def)

lemma ex_log: "log_signal (NdArray2 [[1]]) = Inr ([[1]], [[0]], 1 / 1000)"
  by (simp add: log_signal_def np_log2_def)

lemma ex_dot: "np_dot [[- 1000, 0, 0, 0, 0, 0, - 1]] (replicate 7 [0]) = Inr [[0]]"
  by (simp add: np_dot_def ncols_def col_def dotv_def numeral_eq_Suc)

lemma ex_dot2: "np_dot [[0]] [[0]] = Inr [[0]]"
  by (simp add: np_dot_def ncols_def col_def dotv_def)

lemma ex_voxel:
  "wls_voxel (\<lambda>M. replicate 7 [0]) (\<lambda>M. ([0, 0], [])) [[- 1000, 0, 0, 0, 0, 0, - 1]] [[0]] [[1]]
     (1 / 1000) 0
   = decompose_tensor (\<lambda>M. ([0, 0], [])) [0, 0, 0, 0, 0, 0] 1"
  by (simp add: wls_voxel_def mul_rows_def ncols_def col_def np_log_def np_multiply_def
        np_dot_mv_def dotv_def numeral_eq_Suc)

theorem decomposition_error_aborts_fit_witness:
  "6 \<le> length [0, 0, 0, 0, 0, 0 :: real] \<and>
   length (fst ((\<lambda>M. ([0, 0], [])) (tensor_matrix [0, 0, 0, 0, 0, 0]) :: vec \<times> mat)) \<noteq> 3 \<and>
   (0::nat) \<in> set [0] \<and>
   fit_loop (wls_voxel (\<lambda>M. replicate 7 [0]) (\<lambda>M. ([0, 0], [])) [[- 1000, 0, 0, 0, 0, 0, - 1]]
               [[0]] [[1]] (1 / 1000)) [0] (zeros 1 12)
     = Inl (ValueError ''not 3 eigenvalues : '')"
  using decomposition_error_aborts_fit [where D = "[0, 0, 0, 0, 0, 0]" and eig = "\<lambda>M. ([0, 0], [])"
      and i = 0 and idx = "[0]" and scale = 1 and eig_decomp = "zeros 1 12"
      and voxel = "wls_voxel (\<lambda>M. replicate 7 [0]) (\<lambda>M. ([0, 0], []))
                     [[- 1000, 0, 0, 0, 0, 0, - 1]] [[0]] [[1]] (1 / 1000)"]
    ex_voxel
  by simp

lemma WLS_fit_example_abort:
  "WLS_fit (\<lambda>M. replicate 7 [0]) (\<lambda>M. ([0, 0], [])) (NdArray2 [[1]]) [[1], [0], [0]] [1000]
     = Inl (ValueError ''not 3 eigenvalues : '')"
  by (simp add: WLS_fit_def ex_design ex_log ex_dot ex_dot2 ex_voxel decompose_tensor_def)

subsection \<open>The constructor\<close>

text \<open>
  Claim C6: for every explicit mask whose shape differs from the first three
  dimensions of the data, the constructor raises the ValueError of line 74;
  the heap is as before and the outcome is the same for every \<open>fit\<close>: the fit is
  not run.
\<close>

theorem tensor_init_shape_mismatch:
  assumes "dims data = (X, Y, Z, g)" and "shape m \<noteq> [X, Y, Z]"
  shows "tensor_init fit h data (Some m) thresh =
           (h, Inl (ValueError ''Data image and mask MUST have same 3D volume shape!''))"
  using assms by (auto simp: tensor_init_def)

theorem tensor_init_shape_mismatch_witness:
  "dims \<lparr>base4 = 0, dims = (2, 2, 1, 3)\<rparr> = (2, 2, 1, 3) \<and>
   shape \<lparr>base = 1, offset = 0, stride = 1, shape = [2, 2]\<rparr> \<noteq> [2, 2, 1] \<and>
   tensor_init (\<lambda>h data m. Inr (h (base m))) (\<lambda>a. replicate 12 1)
       \<lparr>base4 = 0, dims = (2, 2, 1, 3)\<rparr>
       (Some \<lparr>base = 1, offset = 0, stride = 1, shape = [2, 2]\<rparr>) 5 =
     (\<lambda>a. replicate 12 1,
      Inl (ValueError ''Data image and mask MUST have same 3D volume shape!''))"
  using tensor_init_shape_mismatch [of "\<lparr>base4 = 0, dims = (2, 2, 1, 3)\<rparr>" 2 2 1 3
      "\<lparr>base = 1, offset = 0, stride = 1, shape = [2, 2]\<rparr>"
      "\<lambda>h data m. Inr (h (base m))" "\<lambda>a. replicate 12 1" 5]
  by simp

lemma b0_position:
  assumes "c < g" and "v < n"
  shows "v * g + c \<in> set (map (\<lambda>v. 0 + v * g) [0..<n]) \<longleftrightarrow> c = 0"
proof
  assume "v * g + c \<in> set (map (\<lambda>v. 0 + v * g) [0..<n])"
  then obtain v' where "v * g + c = v' * g" by auto
  then have "(v * g + c) mod g = (v' * g) mod g" by simp
  with assms(1) show "c = 0" by simp
next
  assume "c = 0"
  with assms(2) show "v * g + c \<in> set (map (\<lambda>v. 0 + v * g) [0..<n])" by auto
qed

lemma voxel_index_bound:
  assumes "c < g" and "v < (n::nat)"
  shows "v * g + c < n * g"
proof -
  have "v * g + c < Suc v * g" using assms(1) by simp
  also have "\<dots> \<le> n * g" using assms(2) by (intro mult_le_mono1) simp
  finally show ?thesis .
qed

text \<open>
  Claim C10: without an explicit mask, the mask is a view of channel 0 of the
  caller's data, and setting its entries below the threshold to 0 writes into
  the caller's array. In the buffer of \<open>data\<close> after the call, whatever the rest
  of the constructor returns or raises, the value of voxel \<open>v\<close> in channel \<open>c\<close> is
  0 when \<open>c = 0\<close> and the value was below the threshold, and is unchanged
  otherwise.
\<close>

theorem tensor_init_zeroes_b0:
  assumes d: "dims data = (X, Y, Z, g)"
    and len: "length (h (base4 data)) = X * Y * Z * g"
    and v: "v < X * Y * Z" and c: "c < g"
  shows "fst (tensor_init fit h data None thresh) (base4 data) ! (v * g + c) =
           (if c = 0 \<and> h (base4 data) ! (v * g + c) < thresh then 0
            else h (base4 data) ! (v * g + c))"
proof -
  from c have g: "g \<noteq> 0" by simp
  have k: "v * g + c < length (h (base4 data))"
    using voxel_index_bound [OF c v] len by simp
  have h1: "fst (tensor_init fit h data None thresh) = setitem_less h (b0_view data) thresh"
    using d g by (simp add: tensor_init_def Let_def split: prod.splits)
  have pos: "positions (b0_view data) = map (\<lambda>v. 0 + v * g) [0..<X * Y * Z]"
    using d by (simp add: positions_def b0_view_def mult.assoc)
  have b: "base (b0_view data) = base4 data"
    using d by (simp add: b0_view_def)
  show ?thesis
    unfolding h1 setitem_less_def b pos
    using k b0_position [OF c v] by (cases "c = 0") simp_all
qed

theorem tensor_init_zeroes_b0_witness:
  "dims \<lparr>base4 = 0, dims = (1, 1, 2, 2)\<rparr> = (1, 1, 2, 2) \<and>
   length ((\<lambda>a. [3, 9, 7, 0]) (base4 \<lparr>base4 = 0, dims = (1, 1, 2, 2)\<rparr>)) = 1 * 1 * 2 * 2 \<and>
   (0::nat) < 1 * 1 * 2 \<and> (0::nat) < 2 \<and>
   fst (tensor_init (\<lambda>h data m. Inr (h (base m))) (\<lambda>a. [3, 9, 7, 0])
          \<lparr>base4 = 0, dims = (1, 1, 2, 2)\<rparr> None 5) 0 ! 0 = 0"
  using tensor_init_zeroes_b0 [of "\<lparr>base4 = 0, dims = (1, 1, 2, 2)\<rparr>" 1 1 2 2
      "\<lambda>a. [3, 9, 7, 0]" 0 0 "\<lambda>h data m. Inr (h (base m))" 5]
  by simp

text \<open>
  Two voxels with two channels: the b0 value 3 of the first voxel is below the
  threshold 5 and is overwritten, the other three values stay.
\<close>

lemma tensor_init_example:
  "fst (tensor_init fit (\<lambda>a. [3, 9, 7, 0]) \<lparr>base4 = 0, dims = (1, 1, 2, 2)\<rparr> None 5) 0
     = [0, 9, 7, 0]"
  by (simp add: tensor_init_def setitem_less_def b0_view_def positions_def upt_rec)

text \<open>With an explicit mask the constructor writes to no buffer.\<close>

lemma tensor_init_explicit_mask_heap:
  "fst (tensor_init fit h data (Some m) thresh) = h"
  by (simp add: tensor_init_def Let_def split: prod.splits)

end
